theory Spec2Isabelle
  imports Complex_Main
begin

section \<open>JavaScript values and the operators the hooks use\<close>

text \<open>
  The hooks of \<^verbatim>\<open>billable-service.resource.ts\<close> read a value that comes from the
  network, so its TypeScript type is not a guarantee at run time. Values are therefore
  modelled untyped: \<open>Undefined\<close> and \<open>Null\<close> are the two absent values, an object is
  the list of its own properties in the order they are written, and the \<open>mutate\<close>
  function that the cached query hands out is the closure over the key it revalidates.
\<close>

datatype jsval =
    Undefined
  | Null
  | Bool bool
  | Num rat
  | Str string
  | Arr "jsval list"
  | Obj "(string \<times> jsval) list"
  | KeyedMutator "string option"

type_synonym jsobj = "(string \<times> jsval) list"

datatype js_error = TypeError

fun nullish :: "jsval \<Rightarrow> bool" where
  "nullish Undefined = True"
| "nullish Null = True"
| "nullish v = False"

text \<open>
  \<^verbatim>\<open>v.name\<close>: reading a property of \<^verbatim>\<open>undefined\<close> or \<^verbatim>\<open>null\<close> throws a TypeError;
  an object yields its property, or \<^verbatim>\<open>undefined\<close> when it has none of that name; any
  other value has none of the properties read here (\<^verbatim>\<open>data\<close>, \<^verbatim>\<open>results\<close>, \<^verbatim>\<open>setMembers\<close>).
\<close>

fun get_prop :: "jsval \<Rightarrow> string \<Rightarrow> js_error + jsval" where
  "get_prop Undefined name = Inl TypeError"
| "get_prop Null name = Inl TypeError"
| "get_prop (Obj fields) name =
     Inr (case map_of fields name of None \<Rightarrow> Undefined | Some v \<Rightarrow> v)"
| "get_prop v name = Inr Undefined"

definition bind_err :: "js_error + 'a \<Rightarrow> ('a \<Rightarrow> js_error + 'b) \<Rightarrow> js_error + 'b" where
  "bind_err r f = (case r of Inl e \<Rightarrow> Inl e | Inr v \<Rightarrow> f v)"

text \<open>
  \<^verbatim>\<open>v?.rest\<close>: when \<open>v\<close> is absent the whole rest of the chain is skipped and the chain
  is \<^verbatim>\<open>undefined\<close>; otherwise the rest is evaluated on \<open>v\<close>, and may throw.
\<close>

definition optional_chain :: "jsval \<Rightarrow> (jsval \<Rightarrow> js_error + jsval) \<Rightarrow> js_error + jsval" where
  "optional_chain v rest = (if nullish v then Inr Undefined else rest v)"

text \<open>\<^verbatim>\<open>v ?? d\<close>\<close>

definition nullish_coalesce :: "jsval \<Rightarrow> jsval \<Rightarrow> jsval" where
  "nullish_coalesce v d = (if nullish v then d else v)"

section \<open>The collaborators: resource client and cached query\<close>

record fetch_config =
  method' :: string
  body :: jsval
  headers :: "(string \<times> string) list"

record request =
  req_url :: string
  req_method :: string
  req_body :: jsval
  req_headers :: "(string \<times> string) list"

text \<open>A promise is modelled by the outcome it settles to, which the server decides.\<close>

datatype outcome = Fulfilled jsval | Rejected jsval

type_synonym server = "request \<Rightarrow> outcome"

record cache_entry =
  entry_value :: jsval
  entry_error :: jsval
  inFlight :: bool

record world =
  cache :: "string \<rightharpoonup> cache_entry"
  requests :: "request list"

record swr_response =
  data :: jsval
  error :: jsval
  isLoading :: bool
  isValidating :: bool
  mutate :: jsval

text \<open>
  Modelled from the spec: \<^verbatim>\<open>openmrsFetch\<close> of \<^verbatim>\<open>@openmrs/esm-framework\<close> is not among the
  sources. It is the resource client of section 2, which wraps one HTTP call: the call
  is appended to the log of requests, a call without options is a GET, and the promise
  it returns settles to what the server answers.
\<close>

definition openmrsFetch :: "server \<Rightarrow> string \<Rightarrow> fetch_config option \<Rightarrow> world \<Rightarrow> outcome \<times> world" where
  "openmrsFetch srv url config w =
     (let req = (case config of
                   None \<Rightarrow> \<lparr>req_url = url, req_method = ''GET'', req_body = Undefined,
                             req_headers = []\<rparr>
                 | Some c \<Rightarrow> \<lparr>req_url = url, req_method = method' c, req_body = body c,
                               req_headers = headers c\<rparr>)
      in (srv req, w\<lparr>requests := requests w @ [req]\<rparr>))"

text \<open>
  Modelled from the spec: \<^verbatim>\<open>useSWR\<close> of the \<^verbatim>\<open>swr\<close> library is not among the sources.
  It is the cached query of section 4.1, with \<^verbatim>\<open>openmrsFetch\<close> as its fetcher. A
  \<^verbatim>\<open>null\<close> key disables the request and returns at once with no data and
  \<open>isLoading = False\<close>. A key with no cache entry starts the one request for it and
  reports loading. A key that has an entry issues nothing (a request in flight is
  shared, a fetched value is served from the cache) and reports the entry: its value,
  its error, and whether it is being fetched.
\<close>

definition useSWR :: "server \<Rightarrow> string option \<Rightarrow> world \<Rightarrow> swr_response \<times> world" where
  "useSWR srv key w =
     (case key of
        None \<Rightarrow>
          (\<lparr>data = Undefined, error = Undefined, isLoading = False, isValidating = False,
            mutate = KeyedMutator None\<rparr>, w)
      | Some k \<Rightarrow>
          (case cache w k of
             None \<Rightarrow>
               (let (promise, w') = openmrsFetch srv k None w
                in (\<lparr>data = Undefined, error = Undefined, isLoading = True,
                     isValidating = True, mutate = KeyedMutator (Some k)\<rparr>,
                    w'\<lparr>cache := (cache w')(k \<mapsto>
                         \<lparr>entry_value = Undefined, entry_error = Undefined, inFlight = True\<rparr>)\<rparr>))
           | Some e \<Rightarrow>
               (\<lparr>data = entry_value e, error = entry_error e,
                 isLoading = (inFlight e \<and> entry_value e = Undefined),
                 isValidating = inFlight e, mutate = KeyedMutator (Some k)\<rparr>, w)))"

section \<open>The resource hooks\<close>

text \<open>
  Each hook is a function of the world it renders in. It returns the object literal it
  builds, or the TypeError thrown while building it, and the world the cached query
  leaves behind.
\<close>

definition billableServicesUrl :: string where
  "billableServicesUrl =
     ''/ws/rest/v1/cashier/billableService?v=custom:(uuid,name,shortName,serviceStatus,serviceType:(display),servicePrices:(uuid,name,price))''"

definition useBillableServices :: "server \<Rightarrow> world \<Rightarrow> (js_error + jsobj) \<times> world" where
  "useBillableServices srv w =
     (let url = billableServicesUrl;
          (r, w') = useSWR srv (Some url) w
      in (bind_err
            (optional_chain (data r)
               (\<lambda>d. bind_err (get_prop d ''data'') (\<lambda>i. get_prop i ''results'')))
            (\<lambda>v. Inr [(''billableServices'', nullish_coalesce v (Arr [])),
                       (''isLoading'', Bool (isLoading r)),
                       (''isValidating'', Bool (isValidating r)),
                       (''error'', error r),
                       (''mutate'', mutate r)]),
          w'))"

definition serviceTypesUrl :: string where
  "serviceTypesUrl =
     ''/ws/rest/v1/concept/21b8cf43-9f9f-4d02-9f4a-d710ece54261?v=custom:(setMembers:(uuid,display))''"

definition useServiceTypes :: "server \<Rightarrow> world \<Rightarrow> (js_error + jsobj) \<times> world" where
  "useServiceTypes srv w =
     (let url = serviceTypesUrl;
          (r, w') = useSWR srv (Some url) w
      in (bind_err
            (optional_chain (data r)
               (\<lambda>d. bind_err (get_prop d ''data'') (\<lambda>i. get_prop i ''setMembers'')))
            (\<lambda>v. Inr [(''serviceTypes'', nullish_coalesce v (Arr [])),
                       (''error'', error r),
                       (''isLoading'', Bool (isLoading r))]),
          w'))"

text \<open>
  \<^verbatim>\<open>restBaseUrl\<close> is a constant of \<^verbatim>\<open>@openmrs/esm-framework\<close>; its value is not among
  the sources, so it is a parameter.
\<close>

definition usePaymentModes :: "string \<Rightarrow> server \<Rightarrow> world \<Rightarrow> (js_error + jsobj) \<times> world" where
  "usePaymentModes restBaseUrl srv w =
     (let url = restBaseUrl @ ''cashier/paymentMode'';
          (r, w') = useSWR srv (Some url) w
      in (bind_err
            (optional_chain (data r)
               (\<lambda>d. bind_err (get_prop d ''data'') (\<lambda>i. get_prop i ''results'')))
            (\<lambda>v. Inr [(''paymentModes'', nullish_coalesce v (Arr [])),
                       (''error'', error r),
                       (''isLoading'', Bool (isLoading r))]),
          w'))"

definition createBillableSerice :: "server \<Rightarrow> jsval \<Rightarrow> world \<Rightarrow> outcome \<times> world" where
  "createBillableSerice srv payload w =
     (let url = ''/ws/rest/v1/cashier/api/billable-service''
      in openmrsFetch srv url
           (Some \<lparr>method' = ''POST'', body = payload,
                  headers = [(''Content-Type'', ''application/json'')]\<rparr>) w)"

text \<open>
  The search term has type \<^verbatim>\<open>string\<close>; the only falsy string is the empty one.
\<close>

definition useConceptsSearch :: "server \<Rightarrow> string \<Rightarrow> world \<Rightarrow> (js_error + jsobj) \<times> world" where
  "useConceptsSearch srv conceptToLookup w =
     (let conditionsSearchUrl = ''/ws/rest/v1/conceptsearch?q='' @ conceptToLookup;
          (r, w') = useSWR srv (if conceptToLookup \<noteq> [] then Some conditionsSearchUrl else None) w
      in (bind_err
            (optional_chain (data r)
               (\<lambda>d. bind_err (get_prop d ''data'')
                      (\<lambda>i. optional_chain i (\<lambda>i. get_prop i ''results''))))
            (\<lambda>v. Inr [(''searchResults'', nullish_coalesce v (Arr [])),
                       (''error'', error r),
                       (''isSearching'', Bool (isLoading r))]),
          w'))"

section \<open>Bills and their view model\<close>

text \<open>
  Modelled from the spec: the mapping of a bill to its view model
  (\<^verbatim>\<open>billing.resource.ts\<close>) and the invoice view (\<^verbatim>\<open>invoice.component.tsx\<close>) are not among
  the sources; only the tests of the components are. The records and functions below
  follow sections 3 and 4.2 of the spec. Amounts are exact rationals. Of the view model
  only the parts that the line items decide are kept: every line item with its total,
  the paid and the unpaid items, and the unpaid total.
\<close>

record line_item =
  item_uuid :: string
  billableService :: string
  price :: rat
  quantity :: "rat option"
  paymentStatus :: string

record bill =
  uuid :: string
  patientUuid :: string
  patientName :: string
  identifier' :: string
  visitType :: string
  dateCreated :: string
  status :: string
  lineItems :: "line_item list"
  totalAmount :: rat
  tenderedAmount :: rat
  receiptNumber :: string

record mapped_line_item = line_item +
  lineTotal :: rat

record mapped_bill =
  mappedLineItems :: "mapped_line_item list"
  paidItems :: "mapped_line_item list"
  unpaidItems :: "mapped_line_item list"
  unpaidTotal :: rat

text \<open>
  Modelled from the spec: \<^verbatim>\<open>lineTotal = price * quantity\<close>, where the quantity defaults
  to 1 when absent.
\<close>

definition mapLineItem :: "line_item \<Rightarrow> mapped_line_item" where
  "mapLineItem i =
     \<lparr>item_uuid = item_uuid i, billableService = billableService i, price = price i,
      quantity = quantity i, paymentStatus = paymentStatus i,
      lineTotal = price i * (case quantity i of None \<Rightarrow> 1 | Some q \<Rightarrow> q)\<rparr>"

text \<open>
  Modelled from the spec: compute the line total of every item, partition the items by
  \<^verbatim>\<open>paymentStatus === 'PAID'\<close>, and sum the line totals of the unpaid ones.
\<close>

definition mapBill :: "bill \<Rightarrow> mapped_bill" where
  "mapBill b =
     (let items = map mapLineItem (lineItems b);
          (paid, unpaid) = partition (\<lambda>i. paymentStatus i = ''PAID'') items
      in \<lparr>mappedLineItems = items, paidItems = paid, unpaidItems = unpaid,
          unpaidTotal = sum_list (map lineTotal unpaid)\<rparr>)"

text \<open>
  Modelled from the spec: in the invoice view an item is selected for payment by
  default iff it is not already \<^verbatim>\<open>PAID\<close>, and the total displayed by default is the
  unpaid total of the mapped bill.
\<close>

definition selectedByDefault :: "mapped_bill \<Rightarrow> mapped_line_item list" where
  "selectedByDefault b = filter (\<lambda>i. paymentStatus i \<noteq> ''PAID'') (mappedLineItems b)"

definition defaultTotal :: "mapped_bill \<Rightarrow> rat" where
  "defaultTotal b = unpaidTotal b"

section \<open>Notions used to state the properties\<close>

text \<open>The two chains of the hooks, as functions of the fetched value.\<close>

definition guarded_once :: "string \<Rightarrow> jsval \<Rightarrow> js_error + jsval" where
  "guarded_once field d =
     optional_chain d (\<lambda>d. bind_err (get_prop d ''data'') (\<lambda>i. get_prop i field))"

definition guarded_twice :: "string \<Rightarrow> jsval \<Rightarrow> js_error + jsval" where
  "guarded_twice field d =
     optional_chain d
       (\<lambda>d. bind_err (get_prop d ''data'') (\<lambda>i. optional_chain i (\<lambda>i. get_prop i field)))"

text \<open>The value the cached query reports for a key in a world.\<close>

definition fetched :: "server \<Rightarrow> string option \<Rightarrow> world \<Rightarrow> jsval" where
  "fetched srv key w = data (fst (useSWR srv key w))"

definition conceptsSearchKey :: "string \<Rightarrow> string option" where
  "conceptsSearchKey t = (if t \<noteq> [] then Some (''/ws/rest/v1/conceptsearch?q='' @ t) else None)"

text \<open>The fetched value is present, but its inner \<^verbatim>\<open>data\<close> is missing or absent.\<close>

definition inner_absent :: "jsval \<Rightarrow> bool" where
  "inner_absent d \<longleftrightarrow>
     \<not> nullish d \<and> (case get_prop d ''data'' of Inl e \<Rightarrow> False | Inr i \<Rightarrow> nullish i)"

text \<open>What the cached query returns for a key in a world.\<close>

definition response :: "server \<Rightarrow> string option \<Rightarrow> world \<Rightarrow> swr_response" where
  "response srv key w = fst (useSWR srv key w)"

text \<open>The request the cached query issues for a key: a GET with no body and no headers.\<close>

definition get_request :: "string \<Rightarrow> request" where
  "get_request k = \<lparr>req_url = k, req_method = ''GET'', req_body = Undefined, req_headers = []\<rparr>"

text \<open>
  The query shape of section 4.1 next to a domain field: the hook returned an object,
  and the object has the domain field, \<^verbatim>\<open>isLoading\<close>, \<^verbatim>\<open>isValidating\<close>, \<^verbatim>\<open>error\<close> and
  \<^verbatim>\<open>mutate\<close>.
\<close>

definition returns_query_shape :: "string \<Rightarrow> js_error + jsobj \<Rightarrow> bool" where
  "returns_query_shape domain_field r =
     (case r of
        Inl e \<Rightarrow> False
      | Inr obj \<Rightarrow>
          set [domain_field, ''isLoading'', ''isValidating'', ''error'', ''mutate'']
            \<subseteq> fst ` set obj)"

section \<open>Example servers and worlds\<close>

definition offline :: server where
  "offline req = Rejected (Str ''Network Error'')"

definition settled :: "jsval \<Rightarrow> cache_entry" where
  "settled v = \<lparr>entry_value = v, entry_error = Undefined, inFlight = False\<rparr>"

definition fresh_world :: world where
  "fresh_world = \<lparr>cache = Map.empty, requests = []\<rparr>"

text \<open>
  Every request was answered without content: each cached value is the envelope
  \<^verbatim>\<open>{data: null}\<close>.
\<close>

definition no_content_world :: world where
  "no_content_world =
     \<lparr>cache = [billableServicesUrl \<mapsto> settled (Obj [(''data'', Null)]),
                ''/ws/rest/v1/cashier/paymentMode'' \<mapsto> settled (Obj [(''data'', Null)]),
                serviceTypesUrl \<mapsto> settled (Obj [(''data'', Null)]),
                ''/ws/rest/v1/conceptsearch?q=flu'' \<mapsto> settled (Obj [(''data'', Null)])],
      requests = []\<rparr>"

text \<open>Every cached value is an envelope with no body.\<close>

definition no_body_world :: world where
  "no_body_world =
     \<lparr>cache = [billableServicesUrl \<mapsto> settled (Obj []),
                ''/ws/rest/v1/cashier/paymentMode'' \<mapsto> settled (Obj [(''data'', Null)]),
                serviceTypesUrl \<mapsto> settled (Obj [(''data'', Undefined)]),
                ''/ws/rest/v1/conceptsearch?q=flu'' \<mapsto> settled (Obj [(''status'', Num 204)])],
      requests = []\<rparr>"

section \<open>Facts about the collaborators and the operators\<close>

lemma useSWR_null:
  "useSWR srv None w =
     (\<lparr>data = Undefined, error = Undefined, isLoading = False, isValidating = False,
       mutate = KeyedMutator None\<rparr>, w)"
  by (simp add: useSWR_def)

lemma useSWR_miss_requests:
  "cache w k = None \<Longrightarrow>
   requests (snd (useSWR srv (Some k) w)) =
     requests w @ [\<lparr>req_url = k, req_method = ''GET'', req_body = Undefined, req_headers = []\<rparr>]"
  by (simp add: useSWR_def openmrsFetch_def Let_def)

lemma useSWR_hit_world:
  "cache w k = Some e \<Longrightarrow> snd (useSWR srv (Some k) w) = w"
  by (simp add: useSWR_def)

lemma useSWR_requests:
  "requests (snd (useSWR srv (Some k) w)) =
     (if cache w k = None
      then requests w @ [\<lparr>req_url = k, req_method = ''GET'', req_body = Undefined, req_headers = []\<rparr>]
      else requests w)"
  by (cases "cache w k") (simp_all add: useSWR_miss_requests useSWR_hit_world)

lemma nullish_iff: "nullish v \<longleftrightarrow> v = Undefined \<or> v = Null"
  by (cases v) simp_all

lemma useBillableServices_fst:
  "fst (useBillableServices srv w) =
     (let r = fst (useSWR srv (Some billableServicesUrl) w)
      in bind_err (guarded_once ''results'' (data r))
           (\<lambda>v. Inr [(''billableServices'', nullish_coalesce v (Arr [])),
                      (''isLoading'', Bool (isLoading r)),
                      (''isValidating'', Bool (isValidating r)),
                      (''error'', error r),
                      (''mutate'', mutate r)]))"
  by (simp add: useBillableServices_def guarded_once_def Let_def split: prod.split)

lemma useBillableServices_snd:
  "snd (useBillableServices srv w) = snd (useSWR srv (Some billableServicesUrl) w)"
  by (simp add: useBillableServices_def Let_def split: prod.split)

lemma useServiceTypes_fst:
  "fst (useServiceTypes srv w) =
     (let r = fst (useSWR srv (Some serviceTypesUrl) w)
      in bind_err (guarded_once ''setMembers'' (data r))
           (\<lambda>v. Inr [(''serviceTypes'', nullish_coalesce v (Arr [])),
                      (''error'', error r),
                      (''isLoading'', Bool (isLoading r))]))"
  by (simp add: useServiceTypes_def guarded_once_def Let_def split: prod.split)

lemma useServiceTypes_snd:
  "snd (useServiceTypes srv w) = snd (useSWR srv (Some serviceTypesUrl) w)"
  by (simp add: useServiceTypes_def Let_def split: prod.split)

lemma usePaymentModes_fst:
  "fst (usePaymentModes restBaseUrl srv w) =
     (let r = fst (useSWR srv (Some (restBaseUrl @ ''cashier/paymentMode'')) w)
      in bind_err (guarded_once ''results'' (data r))
           (\<lambda>v. Inr [(''paymentModes'', nullish_coalesce v (Arr [])),
                      (''error'', error r),
                      (''isLoading'', Bool (isLoading r))]))"
  by (simp add: usePaymentModes_def guarded_once_def Let_def split: prod.split)

lemma usePaymentModes_snd:
  "snd (usePaymentModes restBaseUrl srv w) =
     snd (useSWR srv (Some (restBaseUrl @ ''cashier/paymentMode'')) w)"
  by (simp add: usePaymentModes_def Let_def split: prod.split)

lemma useConceptsSearch_fst:
  "fst (useConceptsSearch srv t w) =
     (let r = fst (useSWR srv
                 (if t \<noteq> [] then Some (''/ws/rest/v1/conceptsearch?q='' @ t) else None) w)
      in bind_err (guarded_twice ''results'' (data r))
           (\<lambda>v. Inr [(''searchResults'', nullish_coalesce v (Arr [])),
                      (''error'', error r),
                      (''isSearching'', Bool (isLoading r))]))"
  by (simp add: useConceptsSearch_def guarded_twice_def Let_def split: prod.split)

lemma useConceptsSearch_snd:
  "snd (useConceptsSearch srv t w) =
     snd (useSWR srv (if t \<noteq> [] then Some (''/ws/rest/v1/conceptsearch?q='' @ t) else None) w)"
  by (simp add: useConceptsSearch_def Let_def split: prod.split)


lemma guarded_once_inner_absent:
  "inner_absent d \<Longrightarrow> guarded_once field d = Inl TypeError"
  by (cases d)
     (auto simp: inner_absent_def guarded_once_def optional_chain_def bind_err_def nullish_iff
           split: option.splits)

lemma guarded_twice_inner_absent:
  "inner_absent d \<Longrightarrow> guarded_twice field d = Inr Undefined"
  by (cases d)
     (auto simp: inner_absent_def guarded_twice_def optional_chain_def bind_err_def nullish_iff
           split: option.splits)

section \<open>Defaulting of the list fields\<close>

text \<open>
  C1. The claim asks that, whenever the fetched value is absent or its inner
  \<^verbatim>\<open>results\<close> (\<^verbatim>\<open>setMembers\<close>) is absent or empty, the hooks return the empty array
  for their domain field and do not throw. The code does not do so: when the fetched
  value is the envelope \<^verbatim>\<open>{data: null}\<close>, there is no \<^verbatim>\<open>results\<close> and no
  \<^verbatim>\<open>setMembers\<close>, and \<^verbatim>\<open>useBillableServices\<close>, \<^verbatim>\<open>usePaymentModes\<close> and
  \<^verbatim>\<open>useServiceTypes\<close> throw a TypeError instead of returning the empty array. Only
  \<^verbatim>\<open>useConceptsSearch\<close>, which writes \<^verbatim>\<open>data?.data?.results\<close>, returns it.
\<close>

theorem list_fields_throw_without_body:
  "fetched offline (Some billableServicesUrl) no_content_world = Obj [(''data'', Null)] \<and>
   fetched offline (Some (''/ws/rest/v1/'' @ ''cashier/paymentMode'')) no_content_world =
     Obj [(''data'', Null)] \<and>
   fetched offline (Some serviceTypesUrl) no_content_world = Obj [(''data'', Null)] \<and>
   fetched offline (conceptsSearchKey ''flu'') no_content_world = Obj [(''data'', Null)] \<and>
   fst (useBillableServices offline no_content_world) = Inl TypeError \<and>
   fst (usePaymentModes ''/ws/rest/v1/'' offline no_content_world) = Inl TypeError \<and>
   fst (useServiceTypes offline no_content_world) = Inl TypeError \<and>
   fst (useConceptsSearch offline ''flu'' no_content_world) =
     Inr [(''searchResults'', Arr []), (''error'', Undefined), (''isSearching'', Bool False)]"
proof -
  have f: "fetched offline (Some billableServicesUrl) no_content_world = Obj [(''data'', Null)]"
    "fetched offline (Some ''/ws/rest/v1/cashier/paymentMode'') no_content_world =
       Obj [(''data'', Null)]"
    "fetched offline (Some serviceTypesUrl) no_content_world = Obj [(''data'', Null)]"
    "fetched offline (conceptsSearchKey ''flu'') no_content_world = Obj [(''data'', Null)]"
    by (simp_all add: fetched_def useSWR_def no_content_world_def settled_def
          conceptsSearchKey_def billableServicesUrl_def serviceTypesUrl_def)
  have once: "guarded_once field (Obj [(''data'', Null)]) = Inl TypeError" for field
    by (simp add: guarded_once_def optional_chain_def bind_err_def)
  have twice: "guarded_twice field (Obj [(''data'', Null)]) = Inr Undefined" for field
    by (simp add: guarded_twice_def optional_chain_def bind_err_def)
  have b: "fst (useBillableServices offline no_content_world) = Inl TypeError"
    using f(1) by (simp add: useBillableServices_fst fetched_def once bind_err_def Let_def)
  have p: "fst (usePaymentModes ''/ws/rest/v1/'' offline no_content_world) = Inl TypeError"
    using f(2) by (simp add: usePaymentModes_fst fetched_def once bind_err_def Let_def)
  have t: "fst (useServiceTypes offline no_content_world) = Inl TypeError"
    using f(3) by (simp add: useServiceTypes_fst fetched_def once bind_err_def Let_def)
  have r: "useSWR offline (Some ''/ws/rest/v1/conceptsearch?q=flu'') no_content_world =
      (\<lparr>data = Obj [(''data'', Null)], error = Undefined, isLoading = False,
        isValidating = False,
        mutate = KeyedMutator (Some ''/ws/rest/v1/conceptsearch?q=flu'')\<rparr>, no_content_world)"
    by (simp add: useSWR_def no_content_world_def settled_def billableServicesUrl_def
          serviceTypesUrl_def)
  have c: "fst (useConceptsSearch offline ''flu'' no_content_world) =
      Inr [(''searchResults'', Arr []), (''error'', Undefined), (''isSearching'', Bool False)]"
    by (simp add: useConceptsSearch_fst r twice bind_err_def nullish_coalesce_def)
  from f b p t c show ?thesis
    by simp
qed

section \<open>The unguarded inner access\<close>

text \<open>
  C10. When the value the cached query reports is present but its inner \<^verbatim>\<open>data\<close> is
  missing or absent, \<^verbatim>\<open>useBillableServices\<close>, \<^verbatim>\<open>useServiceTypes\<close> and \<^verbatim>\<open>usePaymentModes\<close>
  throw a TypeError on the property they read from it: their default guards the outer
  value only. \<^verbatim>\<open>useConceptsSearch\<close> guards both levels and returns the empty array.
\<close>

theorem only_search_guards_inner_data:
  "(inner_absent (fetched srv (Some billableServicesUrl) w) \<longrightarrow>
      fst (useBillableServices srv w) = Inl TypeError) \<and>
   (inner_absent (fetched srv (Some serviceTypesUrl) w) \<longrightarrow>
      fst (useServiceTypes srv w) = Inl TypeError) \<and>
   (inner_absent (fetched srv (Some (restBaseUrl @ ''cashier/paymentMode'')) w) \<longrightarrow>
      fst (usePaymentModes restBaseUrl srv w) = Inl TypeError) \<and>
   (inner_absent (fetched srv (conceptsSearchKey t) w) \<longrightarrow>
      (\<exists>obj. fst (useConceptsSearch srv t w) = Inr obj \<and>
             map_of obj ''searchResults'' = Some (Arr [])))"
  by (simp add: useBillableServices_fst useServiceTypes_fst usePaymentModes_fst
        useConceptsSearch_fst fetched_def conceptsSearchKey_def guarded_once_inner_absent
        guarded_twice_inner_absent bind_err_def nullish_coalesce_def Let_def)

lemma fetched_no_body_world:
  "fetched offline (Some billableServicesUrl) no_body_world = Obj []"
  "fetched offline (Some serviceTypesUrl) no_body_world = Obj [(''data'', Undefined)]"
  "fetched offline (Some ''/ws/rest/v1/cashier/paymentMode'') no_body_world =
     Obj [(''data'', Null)]"
  "fetched offline (conceptsSearchKey ''flu'') no_body_world = Obj [(''status'', Num 204)]"
  by (simp_all add: fetched_def useSWR_def no_body_world_def settled_def conceptsSearchKey_def
        billableServicesUrl_def serviceTypesUrl_def)

theorem only_search_guards_inner_data_witness:
  "inner_absent (fetched offline (Some billableServicesUrl) no_body_world) \<and>
   inner_absent (fetched offline (Some serviceTypesUrl) no_body_world) \<and>
   inner_absent (fetched offline (Some (''/ws/rest/v1/'' @ ''cashier/paymentMode'')) no_body_world) \<and>
   inner_absent (fetched offline (conceptsSearchKey ''flu'') no_body_world) \<and>
   fst (useBillableServices offline no_body_world) = Inl TypeError \<and>
   fst (useServiceTypes offline no_body_world) = Inl TypeError \<and>
   fst (usePaymentModes ''/ws/rest/v1/'' offline no_body_world) = Inl TypeError \<and>
   (\<exists>obj. fst (useConceptsSearch offline ''flu'' no_body_world) = Inr obj \<and>
          map_of obj ''searchResults'' = Some (Arr []))"
proof -
  have h1: "inner_absent (fetched offline (Some billableServicesUrl) no_body_world)"
    by (simp add: fetched_no_body_world inner_absent_def)
  have h2: "inner_absent (fetched offline (Some serviceTypesUrl) no_body_world)"
    by (simp add: fetched_no_body_world inner_absent_def)
  have h3: "inner_absent
     (fetched offline (Some (''/ws/rest/v1/'' @ ''cashier/paymentMode'')) no_body_world)"
    by (simp add: fetched_no_body_world inner_absent_def)
  have h4: "inner_absent (fetched offline (conceptsSearchKey ''flu'') no_body_world)"
    by (simp add: fetched_no_body_world inner_absent_def)
  show ?thesis
    using h1 h2 h3 h4
      only_search_guards_inner_data [of offline no_body_world "''/ws/rest/v1/''" "''flu''"]
    by blast
qed

section \<open>The search hook and its key\<close>

text \<open>
  C2. For the empty search term \<^verbatim>\<open>useConceptsSearch\<close> hands the cached query a \<^verbatim>\<open>null\<close>
  key: the world is left as it was, so no request is issued, however often the hook
  renders, and the hook returns the empty array as \<^verbatim>\<open>searchResults\<close> with
  \<^verbatim>\<open>isSearching\<close> false. For a non-empty term it
  hands the cached query the search URL as key, and the GET for that URL is issued
  unless the cache already holds the key.
\<close>

theorem empty_term_disables_search:
  "useConceptsSearch srv [] w =
     (Inr [(''searchResults'', Arr []), (''error'', Undefined), (''isSearching'', Bool False)], w) \<and>
   snd (useConceptsSearch srv [] w) = snd (useSWR srv None w) \<and>
   requests (snd (useConceptsSearch srv [] w)) = requests w \<and>
   ((\<lambda>w. snd (useConceptsSearch srv [] w)) ^^ n) w = w \<and>
   (t \<noteq> [] \<longrightarrow>
      snd (useConceptsSearch srv t w) =
        snd (useSWR srv (Some (''/ws/rest/v1/conceptsearch?q='' @ t)) w) \<and>
      requests (snd (useConceptsSearch srv t w)) =
        (if cache w (''/ws/rest/v1/conceptsearch?q='' @ t) = None
         then requests w @ [get_request (''/ws/rest/v1/conceptsearch?q='' @ t)]
         else requests w))"
proof -
  have "useConceptsSearch srv [] w =
     (Inr [(''searchResults'', Arr []), (''error'', Undefined), (''isSearching'', Bool False)], w)"
    by (simp add: useConceptsSearch_def useSWR_null optional_chain_def bind_err_def
          nullish_coalesce_def)
  moreover have "snd (useSWR srv None w) = w"
    by (simp add: useSWR_null)
  moreover have "(\<lambda>w. snd (useConceptsSearch srv [] w)) = id"
    by (rule ext) (simp add: useConceptsSearch_snd useSWR_null)
  then have "((\<lambda>w. snd (useConceptsSearch srv [] w)) ^^ n) w = w"
    by (simp add: id_funpow)
  ultimately show ?thesis
    by (simp add: useConceptsSearch_snd useSWR_requests get_request_def)
qed

theorem empty_term_disables_search_witness:
  "''flu'' \<noteq> [] \<and>
   useConceptsSearch offline [] fresh_world =
     (Inr [(''searchResults'', Arr []), (''error'', Undefined), (''isSearching'', Bool False)],
      fresh_world) \<and>
   requests (snd (useConceptsSearch offline [] fresh_world)) = [] \<and>
   requests (snd (useConceptsSearch offline ''flu'' fresh_world)) =
     [get_request ''/ws/rest/v1/conceptsearch?q=flu'']"
proof -
  have c: "cache fresh_world ''/ws/rest/v1/conceptsearch?q=flu'' = None"
    by (simp add: fresh_world_def)
  have r: "requests fresh_world = []"
    by (simp add: fresh_world_def)
  from empty_term_disables_search [of offline fresh_world 0 "''flu''"] c r
  show ?thesis by (simp add: useSWR_requests get_request_def)
qed

text \<open>
  C9. For a non-empty term \<open>t\<close> the key that \<^verbatim>\<open>useConceptsSearch\<close> hands to the cached
  query is the string \<^verbatim>\<open>/ws/rest/v1/conceptsearch?q=\<close> followed by \<open>t\<close> as it is:
  nothing is encoded, so a reserved character of \<open>t\<close> stands in the key unchanged.
  When the cache does not hold the key, it is the URL of the one request issued and the
  one key added to the cache.
\<close>

theorem search_key_is_verbatim:
  assumes "t \<noteq> []"
  shows "snd (useConceptsSearch srv t w) =
           snd (useSWR srv (Some (''/ws/rest/v1/conceptsearch?q='' @ t)) w) \<and>
         (cache w (''/ws/rest/v1/conceptsearch?q='' @ t) = None \<longrightarrow>
            map req_url (requests (snd (useConceptsSearch srv t w))) =
              map req_url (requests w) @ [''/ws/rest/v1/conceptsearch?q='' @ t] \<and>
            dom (cache (snd (useConceptsSearch srv t w))) =
              insert (''/ws/rest/v1/conceptsearch?q='' @ t) (dom (cache w)))"
  using assms
  by (simp add: useConceptsSearch_snd useSWR_def openmrsFetch_def Let_def)

theorem search_key_is_verbatim_witness:
  "''a&b=c d#%/?'' \<noteq> [] \<and>
   cache fresh_world (''/ws/rest/v1/conceptsearch?q='' @ ''a&b=c d#%/?'') = None \<and>
   map req_url (requests (snd (useConceptsSearch offline ''a&b=c d#%/?'' fresh_world))) =
     [''/ws/rest/v1/conceptsearch?q=a&b=c d#%/?''] \<and>
   dom (cache (snd (useConceptsSearch offline ''a&b=c d#%/?'' fresh_world))) =
     {''/ws/rest/v1/conceptsearch?q=a&b=c d#%/?''}"
proof -
  have n: "''a&b=c d#%/?'' \<noteq> []"
    by simp
  have c: "cache fresh_world ''/ws/rest/v1/conceptsearch?q=a&b=c d#%/?'' = None"
    by (simp add: fresh_world_def)
  have r: "requests fresh_world = []" "dom (cache fresh_world) = {}"
    by (simp_all add: fresh_world_def)
  from search_key_is_verbatim [OF n, of offline fresh_world] c r
  show ?thesis by (simp add: useSWR_def openmrsFetch_def Let_def)
qed

section \<open>The endpoints\<close>

text \<open>
  C8. Each hook hands the cached query the URL of its endpoint, and the request the
  cached query issues for it (when the cache does not hold it yet) is a GET of that
  URL. For \<^verbatim>\<open>useBillableServices\<close> it is the \<^verbatim>\<open>billableService\<close> path with the custom
  projection; for \<^verbatim>\<open>usePaymentModes\<close> it is the REST base URL followed by
  \<^verbatim>\<open>cashier/paymentMode\<close>; for \<^verbatim>\<open>useServiceTypes\<close> the concept of the fixed set with its
  members; for \<^verbatim>\<open>useConceptsSearch\<close> the search path with the term.
\<close>

theorem hooks_get_their_endpoints:
  "billableServicesUrl =
     ''/ws/rest/v1/cashier'' @
     ''/billableService?v=custom:(uuid,name,shortName,serviceStatus,serviceType:(display),servicePrices:(uuid,name,price))'' \<and>
   snd (useBillableServices srv w) = snd (useSWR srv (Some billableServicesUrl) w) \<and>
   requests (snd (useBillableServices srv w)) =
     (if cache w billableServicesUrl = None
      then requests w @ [get_request billableServicesUrl] else requests w) \<and>
   snd (usePaymentModes restBaseUrl srv w) =
     snd (useSWR srv (Some (restBaseUrl @ ''cashier/paymentMode'')) w) \<and>
   requests (snd (usePaymentModes restBaseUrl srv w)) =
     (if cache w (restBaseUrl @ ''cashier/paymentMode'') = None
      then requests w @ [get_request (restBaseUrl @ ''cashier/paymentMode'')] else requests w) \<and>
   serviceTypesUrl =
     ''/ws/rest/v1'' @
     ''/concept/21b8cf43-9f9f-4d02-9f4a-d710ece54261?v=custom:(setMembers:(uuid,display))'' \<and>
   requests (snd (useServiceTypes srv w)) =
     (if cache w serviceTypesUrl = None
      then requests w @ [get_request serviceTypesUrl] else requests w) \<and>
   requests (snd (useConceptsSearch srv t w)) =
     (if t = [] then requests w
      else if cache w (''/ws/rest/v1'' @ ''/conceptsearch?q='' @ t) = None
      then requests w @ [get_request (''/ws/rest/v1'' @ ''/conceptsearch?q='' @ t)]
      else requests w)"
  by (simp add: useBillableServices_snd usePaymentModes_snd useServiceTypes_snd
        useConceptsSearch_snd useSWR_requests useSWR_null get_request_def
        billableServicesUrl_def serviceTypesUrl_def)

text \<open>
  In a world with an empty cache each hook issues exactly its one GET. The URL of
  \<^verbatim>\<open>usePaymentModes\<close> is the base URL and the path written one after the other, with
  nothing between them: for the base \<^verbatim>\<open>/ws/rest/v1\<close> it is \<^verbatim>\<open>/ws/rest/v1cashier/paymentMode\<close>.
\<close>

theorem hooks_get_their_endpoints_witness:
  "requests (snd (useBillableServices offline fresh_world)) =
     [get_request ''/ws/rest/v1/cashier/billableService?v=custom:(uuid,name,shortName,serviceStatus,serviceType:(display),servicePrices:(uuid,name,price))''] \<and>
   requests (snd (usePaymentModes ''/ws/rest/v1/'' offline fresh_world)) =
     [get_request ''/ws/rest/v1/cashier/paymentMode''] \<and>
   requests (snd (usePaymentModes ''/ws/rest/v1'' offline fresh_world)) =
     [get_request ''/ws/rest/v1cashier/paymentMode''] \<and>
   requests (snd (useServiceTypes offline fresh_world)) =
     [get_request ''/ws/rest/v1/concept/21b8cf43-9f9f-4d02-9f4a-d710ece54261?v=custom:(setMembers:(uuid,display))''] \<and>
   requests (snd (useConceptsSearch offline ''flu'' fresh_world)) =
     [get_request ''/ws/rest/v1/conceptsearch?q=flu'']"
proof -
  have c: "cache fresh_world = Map.empty" and r: "requests fresh_world = []"
    by (simp_all add: fresh_world_def)
  from hooks_get_their_endpoints [of offline fresh_world "''/ws/rest/v1/''" "''flu''"]
       hooks_get_their_endpoints [of offline fresh_world "''/ws/rest/v1''" "''flu''"]
  show ?thesis
    by (simp add: c r billableServicesUrl_def serviceTypesUrl_def useSWR_requests get_request_def)
qed

section \<open>Creating a billable service\<close>

text \<open>
  C6. \<^verbatim>\<open>createBillableSerice\<close> issues exactly one request: a POST of the payload to
  \<^verbatim>\<open>/ws/rest/v1/cashier/api/billable-service\<close> with the header
  \<^verbatim>\<open>Content-Type: application/json\<close>. It leaves the cache as it was, and what it returns
  is the promise of the client for that request: it settles as the server answers, so
  a rejection reaches the caller as it is, after the one request.
\<close>

theorem createBillableSerice_posts_once:
  "requests (snd (createBillableSerice srv payload w)) =
     requests w @
     [\<lparr>req_url = ''/ws/rest/v1/cashier/api/billable-service'', req_method = ''POST'',
       req_body = payload, req_headers = [(''Content-Type'', ''application/json'')]\<rparr>] \<and>
   cache (snd (createBillableSerice srv payload w)) = cache w \<and>
   createBillableSerice srv payload w =
     openmrsFetch srv ''/ws/rest/v1/cashier/api/billable-service''
       (Some \<lparr>method' = ''POST'', body = payload,
              headers = [(''Content-Type'', ''application/json'')]\<rparr>) w \<and>
   fst (createBillableSerice srv payload w) =
     srv \<lparr>req_url = ''/ws/rest/v1/cashier/api/billable-service'', req_method = ''POST'',
          req_body = payload, req_headers = [(''Content-Type'', ''application/json'')]\<rparr> \<and>
   (srv \<lparr>req_url = ''/ws/rest/v1/cashier/api/billable-service'', req_method = ''POST'',
         req_body = payload, req_headers = [(''Content-Type'', ''application/json'')]\<rparr>
      = Rejected e \<longrightarrow>
    fst (createBillableSerice srv payload w) = Rejected e \<and>
    length (requests (snd (createBillableSerice srv payload w))) = Suc (length (requests w)))"
  by (simp add: createBillableSerice_def openmrsFetch_def Let_def)

theorem createBillableSerice_posts_once_witness:
  "offline \<lparr>req_url = ''/ws/rest/v1/cashier/api/billable-service'', req_method = ''POST'',
            req_body = Obj [(''name'', Str ''X-ray'')],
            req_headers = [(''Content-Type'', ''application/json'')]\<rparr>
     = Rejected (Str ''Network Error'') \<and>
   fst (createBillableSerice offline (Obj [(''name'', Str ''X-ray'')]) fresh_world) =
     Rejected (Str ''Network Error'') \<and>
   length (requests (snd (createBillableSerice offline (Obj [(''name'', Str ''X-ray'')])
                            fresh_world))) = 1"
proof -
  have h: "offline \<lparr>req_url = ''/ws/rest/v1/cashier/api/billable-service'', req_method = ''POST'',
            req_body = Obj [(''name'', Str ''X-ray'')],
            req_headers = [(''Content-Type'', ''application/json'')]\<rparr>
     = Rejected (Str ''Network Error'')"
    by (simp add: offline_def)
  have r: "requests fresh_world = []"
    by (simp add: fresh_world_def)
  from createBillableSerice_posts_once
         [of offline "Obj [(''name'', Str ''X-ray'')]" fresh_world "Str ''Network Error''"] h r
  show ?thesis by (simp add: openmrsFetch_def Let_def)
qed

section \<open>The shape of what the hooks return\<close>

text \<open>
  C3, as stated: every hook returns the domain field with \<^verbatim>\<open>isLoading\<close>,
  \<^verbatim>\<open>isValidating\<close>, \<^verbatim>\<open>error\<close> and \<^verbatim>\<open>mutate\<close>. It fails in a world with an empty cache:
  there the four hooks return an object, and only that of \<^verbatim>\<open>useBillableServices\<close> has
  the five fields.
\<close>

theorem hooks_return_query_shape_counterexample:
  "\<not> (returns_query_shape ''billableServices'' (fst (useBillableServices offline fresh_world)) \<and>
      returns_query_shape ''serviceTypes'' (fst (useServiceTypes offline fresh_world)) \<and>
      returns_query_shape ''paymentModes''
        (fst (usePaymentModes ''/ws/rest/v1/'' offline fresh_world)) \<and>
      returns_query_shape ''searchResults'' (fst (useConceptsSearch offline ''flu'' fresh_world)))"
proof -
  have "response offline (Some serviceTypesUrl) fresh_world =
          \<lparr>data = Undefined, error = Undefined, isLoading = True, isValidating = True,
           mutate = KeyedMutator (Some serviceTypesUrl)\<rparr>"
    by (simp add: response_def useSWR_def openmrsFetch_def fresh_world_def Let_def)
  then have "fst (useServiceTypes offline fresh_world) =
          Inr [(''serviceTypes'', Arr []), (''error'', Undefined), (''isLoading'', Bool True)]"
    by (simp add: useServiceTypes_fst response_def guarded_once_def optional_chain_def
          bind_err_def nullish_coalesce_def)
  then have "\<not> returns_query_shape ''serviceTypes'' (fst (useServiceTypes offline fresh_world))"
    by (simp add: returns_query_shape_def)
  then show ?thesis
    by blast
qed

text \<open>
  C3, amended. Whenever a hook returns an object, its fields are these, in this order:
  \<^verbatim>\<open>useBillableServices\<close> returns \<^verbatim>\<open>billableServices\<close> with the \<^verbatim>\<open>isLoading\<close>,
  \<^verbatim>\<open>isValidating\<close>, \<^verbatim>\<open>error\<close> and \<^verbatim>\<open>mutate\<close> of the query, and so has the full query
  shape; \<^verbatim>\<open>useServiceTypes\<close> and \<^verbatim>\<open>usePaymentModes\<close> return their domain field with the
  \<^verbatim>\<open>error\<close> and \<^verbatim>\<open>isLoading\<close> of the query and nothing else; \<^verbatim>\<open>useConceptsSearch\<close>
  returns \<^verbatim>\<open>searchResults\<close> with the \<^verbatim>\<open>error\<close> of the query and its \<^verbatim>\<open>isLoading\<close> under
  the name \<^verbatim>\<open>isSearching\<close>, and nothing else.
\<close>

theorem hooks_return_shapes:
  "(\<forall>obj. fst (useBillableServices srv w) = Inr obj \<longrightarrow>
      returns_query_shape ''billableServices'' (Inr obj) \<and>
      (\<exists>v. obj = [(''billableServices'', v),
                  (''isLoading'', Bool (isLoading (response srv (Some billableServicesUrl) w))),
                  (''isValidating'', Bool (isValidating (response srv (Some billableServicesUrl) w))),
                  (''error'', error (response srv (Some billableServicesUrl) w)),
                  (''mutate'', mutate (response srv (Some billableServicesUrl) w))])) \<and>
   (\<forall>obj. fst (useServiceTypes srv w) = Inr obj \<longrightarrow>
      (\<exists>v. obj = [(''serviceTypes'', v),
                  (''error'', error (response srv (Some serviceTypesUrl) w)),
                  (''isLoading'', Bool (isLoading (response srv (Some serviceTypesUrl) w)))])) \<and>
   (\<forall>obj. fst (usePaymentModes restBaseUrl srv w) = Inr obj \<longrightarrow>
      (\<exists>v. obj = [(''paymentModes'', v),
                  (''error'',
                   error (response srv (Some (restBaseUrl @ ''cashier/paymentMode'')) w)),
                  (''isLoading'',
                   Bool (isLoading
                     (response srv (Some (restBaseUrl @ ''cashier/paymentMode'')) w)))])) \<and>
   (\<forall>obj. fst (useConceptsSearch srv t w) = Inr obj \<longrightarrow>
      (\<exists>v. obj = [(''searchResults'', v),
                  (''error'', error (response srv (conceptsSearchKey t) w)),
                  (''isSearching'', Bool (isLoading (response srv (conceptsSearchKey t) w)))]))"
proof (intro conjI allI impI)
  fix obj
  assume "fst (useBillableServices srv w) = Inr obj"
  then have "\<exists>v. obj = [(''billableServices'', v),
                  (''isLoading'', Bool (isLoading (response srv (Some billableServicesUrl) w))),
                  (''isValidating'', Bool (isValidating (response srv (Some billableServicesUrl) w))),
                  (''error'', error (response srv (Some billableServicesUrl) w)),
                  (''mutate'', mutate (response srv (Some billableServicesUrl) w))]"
    by (auto simp: useBillableServices_fst response_def bind_err_def Let_def split: sum.splits)
  then show "\<exists>v. obj = [(''billableServices'', v),
                  (''isLoading'', Bool (isLoading (response srv (Some billableServicesUrl) w))),
                  (''isValidating'', Bool (isValidating (response srv (Some billableServicesUrl) w))),
                  (''error'', error (response srv (Some billableServicesUrl) w)),
                  (''mutate'', mutate (response srv (Some billableServicesUrl) w))]"
    and "returns_query_shape ''billableServices'' (Inr obj)"
    by (auto simp: returns_query_shape_def)
next
  fix obj
  assume "fst (useServiceTypes srv w) = Inr obj"
  then show "\<exists>v. obj = [(''serviceTypes'', v),
                  (''error'', error (response srv (Some serviceTypesUrl) w)),
                  (''isLoading'', Bool (isLoading (response srv (Some serviceTypesUrl) w)))]"
    by (auto simp: useServiceTypes_fst response_def bind_err_def Let_def split: sum.splits)
next
  fix obj
  assume "fst (usePaymentModes restBaseUrl srv w) = Inr obj"
  then show "\<exists>v. obj = [(''paymentModes'', v),
                  (''error'',
                   error (response srv (Some (restBaseUrl @ ''cashier/paymentMode'')) w)),
                  (''isLoading'',
                   Bool (isLoading
                     (response srv (Some (restBaseUrl @ ''cashier/paymentMode'')) w)))]"
    by (auto simp: usePaymentModes_fst response_def bind_err_def Let_def split: sum.splits)
next
  fix obj
  assume "fst (useConceptsSearch srv t w) = Inr obj"
  then show "\<exists>v. obj = [(''searchResults'', v),
                  (''error'', error (response srv (conceptsSearchKey t) w)),
                  (''isSearching'', Bool (isLoading (response srv (conceptsSearchKey t) w)))]"
    by (auto simp: useConceptsSearch_fst response_def conceptsSearchKey_def bind_err_def Let_def
             split: sum.splits)
qed

lemma hooks_in_fresh_world:
  "fst (useBillableServices offline fresh_world) =
     Inr [(''billableServices'', Arr []), (''isLoading'', Bool True),
          (''isValidating'', Bool True), (''error'', Undefined),
          (''mutate'', KeyedMutator (Some billableServicesUrl))]"
  "fst (useServiceTypes offline fresh_world) =
     Inr [(''serviceTypes'', Arr []), (''error'', Undefined), (''isLoading'', Bool True)]"
  "fst (usePaymentModes ''/ws/rest/v1/'' offline fresh_world) =
     Inr [(''paymentModes'', Arr []), (''error'', Undefined), (''isLoading'', Bool True)]"
  "fst (useConceptsSearch offline ''flu'' fresh_world) =
     Inr [(''searchResults'', Arr []), (''error'', Undefined), (''isSearching'', Bool True)]"
  by (simp_all add: useBillableServices_fst useServiceTypes_fst usePaymentModes_fst
        useConceptsSearch_fst useSWR_def openmrsFetch_def fresh_world_def guarded_once_def
        guarded_twice_def optional_chain_def bind_err_def nullish_coalesce_def Let_def)

theorem hooks_return_shapes_witness:
  "fst (useBillableServices offline fresh_world) =
     Inr [(''billableServices'', Arr []), (''isLoading'', Bool True),
          (''isValidating'', Bool True), (''error'', Undefined),
          (''mutate'', KeyedMutator (Some billableServicesUrl))] \<and>
   returns_query_shape ''billableServices''
     (Inr [(''billableServices'', Arr []), (''isLoading'', Bool True),
           (''isValidating'', Bool True), (''error'', Undefined),
           (''mutate'', KeyedMutator (Some billableServicesUrl))]) \<and>
   fst (useServiceTypes offline fresh_world) =
     Inr [(''serviceTypes'', Arr []), (''error'', Undefined), (''isLoading'', Bool True)] \<and>
   fst (usePaymentModes ''/ws/rest/v1/'' offline fresh_world) =
     Inr [(''paymentModes'', Arr []), (''error'', Undefined), (''isLoading'', Bool True)] \<and>
   fst (useConceptsSearch offline ''flu'' fresh_world) =
     Inr [(''searchResults'', Arr []), (''error'', Undefined), (''isSearching'', Bool True)]"
  using hooks_return_shapes [of offline fresh_world "''/ws/rest/v1/''" "''flu''"]
    hooks_in_fresh_world
  by blast

section \<open>Line totals and the default selection of the invoice\<close>

lemma mapBill_parts:
  "mappedLineItems (mapBill b) = map mapLineItem (lineItems b)"
  "unpaidItems (mapBill b) =
     filter (\<lambda>i. paymentStatus i \<noteq> ''PAID'') (map mapLineItem (lineItems b))"
  "paidItems (mapBill b) =
     filter (\<lambda>i. paymentStatus i = ''PAID'') (map mapLineItem (lineItems b))"
  "unpaidTotal (mapBill b) = sum_list (map lineTotal (unpaidItems (mapBill b)))"
  by (simp_all add: mapBill_def Let_def comp_def)

lemma mapLineItem_fields:
  "paymentStatus (mapLineItem i) = paymentStatus i"
  "price (mapLineItem i) = price i"
  "quantity (mapLineItem i) = quantity i"
  "item_uuid (mapLineItem i) = item_uuid i"
  "lineTotal (mapLineItem i) = price i * (case quantity i of None \<Rightarrow> 1 | Some q \<Rightarrow> q)"
  by (simp_all add: mapLineItem_def)

text \<open>
  C4. For every bill, the line total of each mapped line item is its price times its
  quantity, with 1 for an absent quantity, and the items are mapped in order. A bill
  whose only line item has price 100, quantity 2 and status \<^verbatim>\<open>PENDING\<close> has the unpaid
  total 200; without the quantity it has the unpaid total 100.
\<close>

theorem line_total_is_price_times_quantity:
  "map lineTotal (mappedLineItems (mapBill b)) =
     map (\<lambda>i. price i * (case quantity i of None \<Rightarrow> 1 | Some q \<Rightarrow> q)) (lineItems b) \<and>
   map lineTotal (mappedLineItems (mapBill b)) =
     map (\<lambda>m. price m * (case quantity m of None \<Rightarrow> 1 | Some q \<Rightarrow> q))
       (mappedLineItems (mapBill b)) \<and>
   unpaidTotal (mapBill (b\<lparr>lineItems :=
       [i\<lparr>price := 100, quantity := Some 2, paymentStatus := ''PENDING''\<rparr>]\<rparr>)) = 200 \<and>
   unpaidTotal (mapBill (b\<lparr>lineItems :=
       [i\<lparr>price := 100, quantity := None, paymentStatus := ''PENDING''\<rparr>]\<rparr>)) = 100"
  by (simp add: mapBill_parts mapLineItem_fields comp_def)

text \<open>
  C5. For every bill, the items selected by default in the invoice view are the mapped
  items whose status is not \<^verbatim>\<open>PAID\<close>, in the order of the bill: these are the unpaid
  items of the mapped bill, and no paid item is among them. The total displayed by
  default is the sum of their line totals. For the items (100, 2, \<^verbatim>\<open>PENDING\<close>) and
  (50, 1, \<^verbatim>\<open>PAID\<close>) only the first is selected and the total is 200.
\<close>

theorem unpaid_items_selected_by_default:
  "selectedByDefault (mapBill b) =
     map mapLineItem (filter (\<lambda>i. paymentStatus i \<noteq> ''PAID'') (lineItems b)) \<and>
   selectedByDefault (mapBill b) = unpaidItems (mapBill b) \<and>
   set (selectedByDefault (mapBill b)) \<inter> set (paidItems (mapBill b)) = {} \<and>
   set (selectedByDefault (mapBill b)) \<union> set (paidItems (mapBill b)) =
     set (mappedLineItems (mapBill b)) \<and>
   defaultTotal (mapBill b) = sum_list (map lineTotal (selectedByDefault (mapBill b))) \<and>
   defaultTotal (mapBill b) =
     sum_list (map (\<lambda>i. price i * (case quantity i of None \<Rightarrow> 1 | Some q \<Rightarrow> q))
       (filter (\<lambda>i. paymentStatus i \<noteq> ''PAID'') (lineItems b))) \<and>
   map item_uuid (selectedByDefault (mapBill (b\<lparr>lineItems :=
       [i\<lparr>item_uuid := ''line-item-1'', price := 100, quantity := Some 2,
          paymentStatus := ''PENDING''\<rparr>,
        i\<lparr>item_uuid := ''line-item-2'', price := 50, quantity := Some 1,
          paymentStatus := ''PAID''\<rparr>]\<rparr>))) = [''line-item-1''] \<and>
   defaultTotal (mapBill (b\<lparr>lineItems :=
       [i\<lparr>item_uuid := ''line-item-1'', price := 100, quantity := Some 2,
          paymentStatus := ''PENDING''\<rparr>,
        i\<lparr>item_uuid := ''line-item-2'', price := 50, quantity := Some 1,
          paymentStatus := ''PAID''\<rparr>]\<rparr>)) = 200"
proof -
  have sel: "selectedByDefault (mapBill b) =
      map mapLineItem (filter (\<lambda>i. paymentStatus i \<noteq> ''PAID'') (lineItems b))"
    by (simp add: selectedByDefault_def mapBill_parts filter_map comp_def mapLineItem_fields)
  have unp: "selectedByDefault (mapBill b) = unpaidItems (mapBill b)"
    by (simp add: selectedByDefault_def mapBill_parts)
  have disj: "set (selectedByDefault (mapBill b)) \<inter> set (paidItems (mapBill b)) = {}"
    by (auto simp: unp mapBill_parts)
  have cover: "set (selectedByDefault (mapBill b)) \<union> set (paidItems (mapBill b)) =
      set (mappedLineItems (mapBill b))"
    by (auto simp: unp mapBill_parts)
  have tot: "defaultTotal (mapBill b) = sum_list (map lineTotal (selectedByDefault (mapBill b)))"
    by (simp add: defaultTotal_def unp mapBill_parts)
  have tot': "defaultTotal (mapBill b) =
      sum_list (map (\<lambda>i. price i * (case quantity i of None \<Rightarrow> 1 | Some q \<Rightarrow> q))
        (filter (\<lambda>i. paymentStatus i \<noteq> ''PAID'') (lineItems b)))"
    by (simp add: tot sel comp_def mapLineItem_fields)
  have ex1: "map item_uuid (selectedByDefault (mapBill (b\<lparr>lineItems :=
       [i\<lparr>item_uuid := ''line-item-1'', price := 100, quantity := Some 2,
          paymentStatus := ''PENDING''\<rparr>,
        i\<lparr>item_uuid := ''line-item-2'', price := 50, quantity := Some 1,
          paymentStatus := ''PAID''\<rparr>]\<rparr>))) = [''line-item-1'']"
    by (simp add: selectedByDefault_def mapBill_parts mapLineItem_fields)
  have ex2: "defaultTotal (mapBill (b\<lparr>lineItems :=
       [i\<lparr>item_uuid := ''line-item-1'', price := 100, quantity := Some 2,
          paymentStatus := ''PENDING''\<rparr>,
        i\<lparr>item_uuid := ''line-item-2'', price := 50, quantity := Some 1,
          paymentStatus := ''PAID''\<rparr>]\<rparr>)) = 200"
    by (simp add: defaultTotal_def mapBill_parts mapLineItem_fields)
  from sel unp disj cover tot tot' ex1 ex2 show ?thesis
    by blast
qed

end
